theory Spec2Isabelle
  imports Main
begin

section \<open>Go values used by the matcher\<close>

subsection \<open>Errors\<close>

text \<open>
  A Go \<^verbatim>\<open>error\<close> is either a plain message (\<^verbatim>\<open>errors.New\<close>) or the value built by
  \<^verbatim>\<open>fmt.Errorf\<close> with the verb \<^verbatim>\<open>%w\<close>: the formatted message together with the wrapped
  cause, which \<^verbatim>\<open>Unwrap\<close> gives back.
\<close>

datatype error = errorString string | wrapError string error

fun Error :: "error \<Rightarrow> string" where
  "Error (errorString s) = s"
| "Error (wrapError msg err) = msg"

fun Unwrap :: "error \<Rightarrow> error option" where
  "Unwrap (errorString s) = None"
| "Unwrap (wrapError msg err) = Some err"

text \<open>\<^verbatim>\<open>fmt.Errorf(context + ": %w", err)\<close>, the only form the sources use.\<close>

definition fmt_Errorf :: "string \<Rightarrow> error \<Rightarrow> error" where
  "fmt_Errorf context err = wrapError (context @ '': '' @ Error err) err"

subsection \<open>The regular-expression library\<close>

text \<open>
  Package \<^verbatim>\<open>regexp\<close> belongs to the Go standard library, not to this repository.
  It is a parameter of the development: \<open>Compile\<close> is \<^verbatim>\<open>regexp.Compile\<close> and
  \<open>MatchString\<close> is the method \<^verbatim>\<open>MatchString\<close> of a compiled expression, the
  unanchored search.
\<close>

record 're regexp_engine =
  Compile :: "string \<Rightarrow> error + 're"
  MatchString :: "'re \<Rightarrow> string \<Rightarrow> bool"

text \<open>
  A reference engine for concrete evaluations. It covers the fragment of the RE2 syntax made
  of literal characters and the anchors \<^verbatim>\<open>^\<close> (beginning of text) and \<^verbatim>\<open>$\<close> (end of
  text); a pattern that uses any other metacharacter is outside the fragment and is reported
  as an error by this engine.
\<close>

datatype re_item = Bol | Eol | Lit char

definition is_meta :: "char \<Rightarrow> bool" where
  "is_meta c = (c = CHR 0x5C \<or> List.member ''.+*?()|[]{}^$'' c)"

fun parse_items :: "string \<Rightarrow> re_item list option" where
  "parse_items [] = Some []"
| "parse_items (c # cs) =
     (case parse_items cs of
        None \<Rightarrow> None
      | Some items \<Rightarrow>
          if c = CHR ''^'' then Some (Bol # items)
          else if c = CHR ''$'' then Some (Eol # items)
          else if is_meta c then None
          else Some (Lit c # items))"

fun match_here :: "re_item list \<Rightarrow> bool \<Rightarrow> string \<Rightarrow> bool" where
  "match_here [] at_start text = True"
| "match_here (Bol # items) at_start text = (at_start \<and> match_here items at_start text)"
| "match_here (Eol # items) at_start text = (text = [] \<and> match_here items at_start text)"
| "match_here (Lit c # items) at_start [] = False"
| "match_here (Lit c # items) at_start (d # text) = (c = d \<and> match_here items False text)"

fun search_from :: "re_item list \<Rightarrow> bool \<Rightarrow> string \<Rightarrow> bool" where
  "search_from items at_start [] = match_here items at_start []"
| "search_from items at_start (d # text) =
     (match_here items at_start (d # text) \<or> search_from items False text)"

definition literal_engine :: "re_item list regexp_engine" where
  "literal_engine =
     \<lparr> Compile = (\<lambda>pattern. case parse_items pattern of
                    None \<Rightarrow> Inl (errorString (''error parsing regexp: '' @ pattern))
                  | Some items \<Rightarrow> Inr items),
       MatchString = (\<lambda>items text. search_from items True text) \<rparr>"

section \<open>OTTL function IsMatch\<close>

text \<open>
  \<^verbatim>\<open>interface{}\<close> values as far as \<^verbatim>\<open>IsMatch\<close> tells them apart: \<^verbatim>\<open>nil\<close>, a string,
  a bool (what the function returns), and any value of another dynamic type.
\<close>

datatype any = AnyNil | AnyString string | AnyBool bool | AnyOther nat

text \<open>
  \<^verbatim>\<open>ottl.Getter[K]\<close> and \<^verbatim>\<open>ottl.ExprFunc[K]\<close>: functions from the context to the Go
  pair \<^verbatim>\<open>(interface{}, error)\<close>, the error being \<open>None\<close> for \<^verbatim>\<open>nil\<close>.
\<close>

type_synonym 'k ExprFunc = "'k \<Rightarrow> any \<times> error option"

definition IsMatch ::
  "'re regexp_engine \<Rightarrow> 'k ExprFunc \<Rightarrow> string \<Rightarrow> 'k ExprFunc option \<times> error option" where
  "IsMatch eng target pattern =
     (case Compile eng pattern of
        Inl err \<Rightarrow>
          (None, Some (fmt_Errorf ''the pattern supplied to IsMatch is not a valid regexp pattern'' err))
      | Inr compiledPattern \<Rightarrow>
          (Some (\<lambda>ctx.
             case target ctx of
               (val, Some err) \<Rightarrow> (AnyNil, Some err)
             | (val, None) \<Rightarrow>
                 (case val of
                    AnyString valStr \<Rightarrow> (AnyBool (MatchString eng compiledPattern valStr), None)
                  | _ \<Rightarrow> (AnyBool False, None))),
           None))"

section \<open>Package filterset\<close>

text \<open>
  Modelled from the spec: the package \<^verbatim>\<open>filterset\<close> (\<^verbatim>\<open>Config\<close>, \<^verbatim>\<open>FilterSet\<close>,
  \<^verbatim>\<open>CreateFilterSet\<close>, \<^verbatim>\<open>Matches\<close>) is used by the matcher and is not among the sources.
  The strategy is STRICT or REGEXP. Under STRICT each pattern is stored verbatim and
  \<^verbatim>\<open>Matches\<close> is a membership test; under REGEXP each pattern is compiled at construction,
  construction fails as a whole on the first pattern that does not compile, and \<^verbatim>\<open>Matches\<close>
  holds iff the search of at least one compiled pattern succeeds.
\<close>

datatype MatchType = Strict | Regexp

record Config =
  MatchType :: MatchType

datatype 're FilterSet = StrictFilterSet "string list" | RegexpFilterSet "'re list"

text \<open>The compilation error surfaces the offending pattern and the underlying syntax error.\<close>

definition CompilationError :: "string \<Rightarrow> error \<Rightarrow> error" where
  "CompilationError pattern cause = wrapError (pattern @ '': '' @ Error cause) cause"

fun compile_patterns :: "'re regexp_engine \<Rightarrow> string list \<Rightarrow> error + 're list" where
  "compile_patterns eng [] = Inr []"
| "compile_patterns eng (p # ps) =
     (case Compile eng p of
        Inl cause \<Rightarrow> Inl (CompilationError p cause)
      | Inr r \<Rightarrow>
          (case compile_patterns eng ps of
             Inl e \<Rightarrow> Inl e
           | Inr rs \<Rightarrow> Inr (r # rs)))"

definition CreateFilterSet ::
  "'re regexp_engine \<Rightarrow> string list \<Rightarrow> Config \<Rightarrow> error + 're FilterSet" where
  "CreateFilterSet eng patterns config =
     (case MatchType config of
        Strict \<Rightarrow> Inr (StrictFilterSet patterns)
      | Regexp \<Rightarrow>
          (case compile_patterns eng patterns of
             Inl e \<Rightarrow> Inl e
           | Inr rs \<Rightarrow> Inr (RegexpFilterSet rs)))"

fun Matches :: "'re regexp_engine \<Rightarrow> 're FilterSet \<Rightarrow> string \<Rightarrow> bool" where
  "Matches eng (StrictFilterSet patterns) v = List.member patterns v"
| "Matches eng (RegexpFilterSet rs) v = list_ex (\<lambda>r. MatchString eng r v) rs"

section \<open>Telemetry records\<close>

text \<open>
  Modelled from the spec: package \<^verbatim>\<open>pcommon\<close> is an external collaborator. An attribute
  value is a tagged union over string, int64, bool, bytes, nested map and nested list
  (float64 is left out: no definition below inspects a number); a \<^verbatim>\<open>Map\<close> is a mapping
  from string keys to values whose order is irrelevant; a resource carries its attribute
  map; a scope is a name and a version.
\<close>

datatype Value =
    ValueStr string
  | ValueInt int
  | ValueBool bool
  | ValueBytes "nat list"
  | ValueMap "(string \<times> Value) list"
  | ValueSlice "Value list"

type_synonym Map = "string \<rightharpoonup> Value"

record Resource =
  Resource_Attributes :: Map

record InstrumentationScope =
  Scope_Name :: string
  Scope_Version :: string

section \<open>Attribute matchers\<close>

text \<open>
  Modelled from the spec: \<^verbatim>\<open>AttributesMatcher\<close>, its method \<^verbatim>\<open>Match\<close> and
  \<^verbatim>\<open>NewAttributesMatcher\<close> are not among the sources. A constraint is a key with a presence
  or absence test, or with a required value matched by strict (typed) equality or by regexp.
  The matcher is the conjunction of its constraints; a constraint on a key that the map lacks
  fails unless it is the absence test; a regexp constraint fails closed on a value that is not
  a string. An absent (\<^verbatim>\<open>nil\<close>) matcher accepts every map.
  A configured attribute is a key with an optional value: without a value it asks for
  presence; a string value is matched by the strategy of the configuration; a value of
  another type by typed equality.
\<close>

datatype 're AttributeConstraint =
    KeyPresent string
  | KeyAbsent string
  | ValueStrict string Value
  | ValueRegexp string "'re FilterSet"

type_synonym 're AttributesMatcher = "'re AttributeConstraint list"

fun constraint_holds :: "'re regexp_engine \<Rightarrow> 're AttributeConstraint \<Rightarrow> Map \<Rightarrow> bool" where
  "constraint_holds eng (KeyPresent k) attrs = (attrs k \<noteq> None)"
| "constraint_holds eng (KeyAbsent k) attrs = (attrs k = None)"
| "constraint_holds eng (ValueStrict k v) attrs = (attrs k = Some v)"
| "constraint_holds eng (ValueRegexp k fs) attrs =
     (case attrs k of
        Some (ValueStr s) \<Rightarrow> Matches eng fs s
      | _ \<Rightarrow> False)"

text \<open>The receiver may be \<^verbatim>\<open>nil\<close> (\<open>None\<close>).\<close>

fun AttributesMatcher_Match ::
  "'re regexp_engine \<Rightarrow> 're AttributesMatcher option \<Rightarrow> Map \<Rightarrow> bool" where
  "AttributesMatcher_Match eng None attrs = True"
| "AttributesMatcher_Match eng (Some ma) attrs = list_all (\<lambda>c. constraint_holds eng c attrs) ma"

record Attribute =
  Key :: string
  AttributeValue :: "Value option"

definition NewAttributeConstraint ::
  "'re regexp_engine \<Rightarrow> Config \<Rightarrow> Attribute \<Rightarrow> error + 're AttributeConstraint" where
  "NewAttributeConstraint eng config attribute =
     (case AttributeValue attribute of
        None \<Rightarrow> Inr (KeyPresent (Key attribute))
      | Some (ValueStr s) \<Rightarrow>
          (case MatchType config of
             Strict \<Rightarrow> Inr (ValueStrict (Key attribute) (ValueStr s))
           | Regexp \<Rightarrow>
               (case CreateFilterSet eng [s] config of
                  Inl e \<Rightarrow> Inl e
                | Inr fs \<Rightarrow> Inr (ValueRegexp (Key attribute) fs)))
      | Some v \<Rightarrow> Inr (ValueStrict (Key attribute) v))"

fun NewAttributesMatcher ::
  "'re regexp_engine \<Rightarrow> Config \<Rightarrow> Attribute list \<Rightarrow> error + 're AttributesMatcher" where
  "NewAttributesMatcher eng config [] = Inr []"
| "NewAttributesMatcher eng config (attribute # rest) =
     (case NewAttributeConstraint eng config attribute of
        Inl e \<Rightarrow> Inl e
      | Inr c \<Rightarrow>
          (case NewAttributesMatcher eng config rest of
             Inl e \<Rightarrow> Inl e
           | Inr cs \<Rightarrow> Inr (c # cs)))"

section \<open>Package filtermatcher\<close>

text \<open>
  \<^verbatim>\<open>filterset.FilterSet\<close> is an interface: a field of that type holds a filter set or
  \<^verbatim>\<open>nil\<close> (\<open>None\<close>). The two optional matchers are \<^verbatim>\<open>nil\<close> when they are not configured.
\<close>

record 're instrumentationLibraryMatcher =
  Name :: "'re FilterSet option"
  Version :: "'re FilterSet option"

record 're PropertiesMatcher =
  libraries :: "'re instrumentationLibraryMatcher list"
  attributes :: "'re AttributesMatcher option"
  resources :: "'re AttributesMatcher option"

text \<open>The zero value \<^verbatim>\<open>PropertiesMatcher{}\<close>.\<close>

definition PropertiesMatcher_zero :: "'re PropertiesMatcher" where
  "PropertiesMatcher_zero = \<lparr> libraries = [], attributes = None, resources = None \<rparr>"

text \<open>
  Modelled from the spec: \<^verbatim>\<open>filterconfig.MatchProperties\<close> is declared outside the
  sources. It holds the strategy, the ordered library constraints (a name and an optional
  version, a \<^verbatim>\<open>*string\<close> in the source), the attribute and the resource constraints.
\<close>

record InstrumentationLibrary =
  Library_Name :: string
  Library_Version :: "string option"

record MatchProperties =
  Config :: Config
  Libraries :: "InstrumentationLibrary list"
  Attributes :: "Attribute list"
  Resources :: "Attribute list"

text \<open>
  The loop of \<^verbatim>\<open>NewMatcher\<close> over \<^verbatim>\<open>mp.Libraries\<close>, with \<open>lm\<close> the slice built so far.
  \<open>Inl\<close> is the error of an early return.
\<close>

fun NewMatcher_libraries ::
  "'re regexp_engine \<Rightarrow> Config \<Rightarrow> InstrumentationLibrary list \<Rightarrow>
   're instrumentationLibraryMatcher list \<Rightarrow> error + 're instrumentationLibraryMatcher list" where
  "NewMatcher_libraries eng config [] lm = Inr lm"
| "NewMatcher_libraries eng config (library # rest) lm =
     (case CreateFilterSet eng [Library_Name library] config of
        Inl err \<Rightarrow> Inl (fmt_Errorf ''error creating library name filters'' err)
      | Inr name \<Rightarrow>
          (case Library_Version library of
             None \<Rightarrow>
               NewMatcher_libraries eng config rest (lm @ [\<lparr> Name = Some name, Version = None \<rparr>])
           | Some v \<Rightarrow>
               (case CreateFilterSet eng [v] config of
                  Inl err \<Rightarrow> Inl (fmt_Errorf ''error creating library version filters'' err)
                | Inr filter' \<Rightarrow>
                    NewMatcher_libraries eng config rest
                      (lm @ [\<lparr> Name = Some name, Version = Some filter' \<rparr>]))))"

text \<open>\<^verbatim>\<open>NewMatcher\<close> returns the Go pair \<^verbatim>\<open>(PropertiesMatcher, error)\<close>.\<close>

definition NewMatcher ::
  "'re regexp_engine \<Rightarrow> MatchProperties \<Rightarrow> 're PropertiesMatcher \<times> error option" where
  "NewMatcher eng mp =
     (case NewMatcher_libraries eng (Config mp) (Libraries mp) [] of
        Inl e \<Rightarrow> (PropertiesMatcher_zero, Some e)
      | Inr lm \<Rightarrow>
          (case (if length (Attributes mp) > 0
                 then (case NewAttributesMatcher eng (Config mp) (Attributes mp) of
                         Inl err \<Rightarrow> Inl (fmt_Errorf ''error creating attribute filters'' err)
                       | Inr am \<Rightarrow> Inr (Some am))
                 else Inr None) of
             Inl e \<Rightarrow> (PropertiesMatcher_zero, Some e)
           | Inr am \<Rightarrow>
               (case (if length (Resources mp) > 0
                      then (case NewAttributesMatcher eng (Config mp) (Resources mp) of
                              Inl err \<Rightarrow> Inl (fmt_Errorf ''error creating resource filters'' err)
                            | Inr rm \<Rightarrow> Inr (Some rm))
                      else Inr None) of
                  Inl e \<Rightarrow> (PropertiesMatcher_zero, Some e)
                | Inr rm \<Rightarrow> (\<lparr> libraries = lm, attributes = am, resources = rm \<rparr>, None))))"

text \<open>
  Calling a method on a \<^verbatim>\<open>nil\<close> interface value panics; \<^verbatim>\<open>Match\<close> returns the boolean
  or that panic.
\<close>

datatype panic = NilPointerDereference

text \<open>
  The loop of \<^verbatim>\<open>Match\<close> over \<^verbatim>\<open>mp.libraries\<close>: \<open>Inr False\<close> is the early
  \<^verbatim>\<open>return false\<close>, \<open>Inr True\<close> is the loop running to its end.
\<close>

fun Match_libraries ::
  "'re regexp_engine \<Rightarrow> 're instrumentationLibraryMatcher list \<Rightarrow> InstrumentationScope \<Rightarrow>
   panic + bool" where
  "Match_libraries eng [] library = Inr True"
| "Match_libraries eng (matcher # rest) library =
     (case Name matcher of
        None \<Rightarrow> Inl NilPointerDereference
      | Some name \<Rightarrow>
          if \<not> Matches eng name (Scope_Name library) then Inr False
          else (case Version matcher of
                  None \<Rightarrow> Match_libraries eng rest library
                | Some version \<Rightarrow>
                    if \<not> Matches eng version (Scope_Version library) then Inr False
                    else Match_libraries eng rest library))"

definition Match ::
  "'re regexp_engine \<Rightarrow> 're PropertiesMatcher \<Rightarrow> Map \<Rightarrow> Resource \<Rightarrow> InstrumentationScope \<Rightarrow>
   panic + bool" where
  "Match eng mp attrs resource library =
     (case Match_libraries eng (libraries mp) library of
        Inl p \<Rightarrow> Inl p
      | Inr False \<Rightarrow> Inr False
      | Inr True \<Rightarrow>
          if resources mp \<noteq> None
             \<and> \<not> AttributesMatcher_Match eng (resources mp) (Resource_Attributes resource)
          then Inr False
          else Inr (AttributesMatcher_Match eng (attributes mp) attrs))"

subsection \<open>The specification's formula\<close>

text \<open>
  What the specification says a library constraint asks of a scope: the name passes the
  name filter and, when a version filter is configured, the version passes it.
\<close>

definition library_accepts ::
  "'re regexp_engine \<Rightarrow> 're instrumentationLibraryMatcher \<Rightarrow> InstrumentationScope \<Rightarrow> bool" where
  "library_accepts eng matcher library =
     ((case Name matcher of
         None \<Rightarrow> False
       | Some name \<Rightarrow> Matches eng name (Scope_Name library))
      \<and> (case Version matcher of
            None \<Rightarrow> True
          | Some version \<Rightarrow> Matches eng version (Scope_Version library)))"

text \<open>\<^verbatim>\<open>AND(libraries...) AND resourcesOk AND attributesOk\<close>, in the specification's words.\<close>

definition Match_spec ::
  "'re regexp_engine \<Rightarrow> 're PropertiesMatcher \<Rightarrow> Map \<Rightarrow> Resource \<Rightarrow> InstrumentationScope \<Rightarrow> bool" where
  "Match_spec eng mp attrs resource library =
     (list_all (\<lambda>matcher. library_accepts eng matcher library) (libraries mp)
      \<and> (case resources mp of
            None \<Rightarrow> True
          | Some rm \<Rightarrow> AttributesMatcher_Match eng (Some rm) (Resource_Attributes resource))
      \<and> (case attributes mp of
            None \<Rightarrow> True
          | Some am \<Rightarrow> AttributesMatcher_Match eng (Some am) attrs))"

text \<open>A matcher in which every library constraint has its name filter.\<close>

definition names_set :: "'re instrumentationLibraryMatcher list \<Rightarrow> bool" where
  "names_set lm = list_all (\<lambda>matcher. Name matcher \<noteq> None) lm"

section \<open>Configurations used in the evaluations\<close>

text \<open>
  A resource constraint \<^verbatim>\<open>host.name == "guarana"\<close> with an attribute constraint asking for
  the presence of \<^verbatim>\<open>http.status\<close>, and the matcher \<^verbatim>\<open>NewMatcher\<close> builds from it.
\<close>

definition guarana_properties :: MatchProperties where
  "guarana_properties =
     \<lparr> Config = \<lparr> MatchType = Strict \<rparr>,
       Libraries = [],
       Attributes = [\<lparr> Key = ''http.status'', AttributeValue = None \<rparr>],
       Resources = [\<lparr> Key = ''host.name'', AttributeValue = Some (ValueStr ''guarana'') \<rparr>] \<rparr>"

definition guarana_matcher :: "'re PropertiesMatcher" where
  "guarana_matcher =
     \<lparr> libraries = [],
       attributes = Some [KeyPresent ''http.status''],
       resources = Some [ValueStrict ''host.name'' (ValueStr ''guarana'')] \<rparr>"

text \<open>The single library constraint \<^verbatim>\<open>{name: "lib-a"}\<close>, without a version.\<close>

definition lib_a_properties :: "MatchType \<Rightarrow> MatchProperties" where
  "lib_a_properties mt =
     \<lparr> Config = \<lparr> MatchType = mt \<rparr>,
       Libraries = [\<lparr> Library_Name = ''lib-a'', Library_Version = None \<rparr>],
       Attributes = [],
       Resources = [] \<rparr>"

text \<open>The matcher built from it under STRICT.\<close>

definition lib_a_matcher :: "'re PropertiesMatcher" where
  "lib_a_matcher =
     \<lparr> libraries = [\<lparr> Name = Some (StrictFilterSet [''lib-a'']), Version = None \<rparr>],
       attributes = None, resources = None \<rparr>"

text \<open>
  Three constraints: the first accepts the scope \<^verbatim>\<open>lib-a\<close> 1.0, the second rejects its
  version, the third has no name filter.
\<close>

definition ordered_matcher :: "'re PropertiesMatcher" where
  "ordered_matcher =
     \<lparr> libraries =
         [\<lparr> Name = Some (StrictFilterSet [''lib-a'']), Version = None \<rparr>,
          \<lparr> Name = Some (StrictFilterSet [''lib-a'']), Version = Some (StrictFilterSet [''2.0'']) \<rparr>,
          \<lparr> Name = None, Version = None \<rparr>],
       attributes = None, resources = None \<rparr>"

text \<open>The filter set of the patterns \<^verbatim>\<open>^abc\<close> and \<^verbatim>\<open>xyz\<close> under REGEXP.\<close>

definition abc_xyz_filters :: "re_item list FilterSet" where
  "abc_xyz_filters =
     RegexpFilterSet [[Bol, Lit CHR ''a'', Lit CHR ''b'', Lit CHR ''c''],
                      [Lit CHR ''x'', Lit CHR ''y'', Lit CHR ''z'']]"

text \<open>A library constraint whose version does not compile under REGEXP.\<close>

definition bad_library_properties :: MatchProperties where
  "bad_library_properties =
     \<lparr> Config = \<lparr> MatchType = Regexp \<rparr>,
       Libraries = [\<lparr> Library_Name = ''lib-a'', Library_Version = Some ''(['' \<rparr>],
       Attributes = [\<lparr> Key = ''http.status'', AttributeValue = None \<rparr>],
       Resources = [] \<rparr>"

definition bad_library_error :: error where
  "bad_library_error =
     fmt_Errorf ''error creating library version filters''
       (CompilationError ''(['' (errorString ''error parsing regexp: ([''))"

section \<open>Failures of construction\<close>

text \<open>
  The compilations \<^verbatim>\<open>NewMatcher\<close> asks for, and which of them fail: the name or the
  version of a library constraint, the attribute constraints, the resource constraints.
\<close>

definition name_fails :: "'re regexp_engine \<Rightarrow> Config \<Rightarrow> InstrumentationLibrary \<Rightarrow> error \<Rightarrow> bool" where
  "name_fails eng config l cause = (CreateFilterSet eng [Library_Name l] config = Inl cause)"

definition version_fails :: "'re regexp_engine \<Rightarrow> Config \<Rightarrow> InstrumentationLibrary \<Rightarrow> error \<Rightarrow> bool" where
  "version_fails eng config l cause =
     (case Library_Version l of
        None \<Rightarrow> False
      | Some v \<Rightarrow> CreateFilterSet eng [v] config = Inl cause)"

definition library_fails :: "'re regexp_engine \<Rightarrow> Config \<Rightarrow> InstrumentationLibrary \<Rightarrow> bool" where
  "library_fails eng config l =
     (isl (CreateFilterSet eng [Library_Name l] config)
      \<or> (case Library_Version l of
            None \<Rightarrow> False
          | Some v \<Rightarrow> isl (CreateFilterSet eng [v] config)))"

definition compilation_fails :: "'re regexp_engine \<Rightarrow> MatchProperties \<Rightarrow> bool" where
  "compilation_fails eng mp =
     (list_ex (library_fails eng (Config mp)) (Libraries mp)
      \<or> (Attributes mp \<noteq> [] \<and> isl (NewAttributesMatcher eng (Config mp) (Attributes mp)))
      \<or> (Resources mp \<noteq> [] \<and> isl (NewAttributesMatcher eng (Config mp) (Resources mp))))"

text \<open>The failing field, named by the context of the error, and the cause it wraps.\<close>

definition field_failure ::
  "'re regexp_engine \<Rightarrow> MatchProperties \<Rightarrow> string \<Rightarrow> error \<Rightarrow> bool" where
  "field_failure eng mp context cause =
     ((context = ''error creating library name filters''
         \<and> list_ex (\<lambda>l. name_fails eng (Config mp) l cause) (Libraries mp))
      \<or> (context = ''error creating library version filters''
         \<and> list_ex (\<lambda>l. version_fails eng (Config mp) l cause) (Libraries mp))
      \<or> (context = ''error creating attribute filters''
         \<and> Attributes mp \<noteq> []
         \<and> NewAttributesMatcher eng (Config mp) (Attributes mp) = Inl cause)
      \<or> (context = ''error creating resource filters''
         \<and> Resources mp \<noteq> []
         \<and> NewAttributesMatcher eng (Config mp) (Resources mp) = Inl cause))"

section \<open>Versions of library constraints\<close>

text \<open>Properties with one library constraint under STRICT, its version present or absent.\<close>

definition one_library_properties :: "string \<Rightarrow> string option \<Rightarrow> MatchProperties" where
  "one_library_properties n v =
     \<lparr> Config = \<lparr> MatchType = Strict \<rparr>,
       Libraries = [\<lparr> Library_Name = n, Library_Version = v \<rparr>],
       Attributes = [],
       Resources = [] \<rparr>"

text \<open>
  The version filter of a built constraint against the configured one: absent when no
  version is configured, and otherwise the filter set compiled from the configured string.
\<close>

definition version_compiled ::
  "'re regexp_engine \<Rightarrow> Config \<Rightarrow> InstrumentationLibrary \<Rightarrow> 're instrumentationLibraryMatcher \<Rightarrow> bool" where
  "version_compiled eng config l matcher =
     (case Library_Version l of
        None \<Rightarrow> Version matcher = None
      | Some v \<Rightarrow>
          (case Version matcher of
             None \<Rightarrow> False
           | Some f \<Rightarrow> CreateFilterSet eng [v] config = Inr f))"

section \<open>Properties of NewMatcher and Match\<close>

subsection \<open>Every constructed matcher has its name filters\<close>

lemma names_set_snoc: "names_set lm \<Longrightarrow> names_set (lm @ [\<lparr> Name = Some name, Version = v \<rparr>])"
  by (simp add: names_set_def)

lemma NewMatcher_libraries_names_set:
  "names_set lm \<Longrightarrow> NewMatcher_libraries eng config libs lm = Inr lm' \<Longrightarrow> names_set lm'"
proof (induction libs arbitrary: lm)
  case Nil
  then show ?case by simp
next
  case (Cons library rest)
  from Cons.prems(2) obtain name v
    where "NewMatcher_libraries eng config rest (lm @ [\<lparr> Name = Some name, Version = v \<rparr>]) = Inr lm'"
    by (auto split: sum.splits option.splits)
  with Cons.IH names_set_snoc [OF Cons.prems(1)] show ?case by blast
qed

lemma NewMatcher_libraries_field:
  "NewMatcher eng mp = (m, None) \<Longrightarrow>
   NewMatcher_libraries eng (Config mp) (Libraries mp) [] = Inr (libraries m)"
  by (auto simp: NewMatcher_def split: sum.splits if_splits)

lemma NewMatcher_names_set: "NewMatcher eng mp = (m, None) \<Longrightarrow> names_set (libraries m)"
  using NewMatcher_libraries_names_set [of "[]" eng "Config mp" "Libraries mp" "libraries m"]
    NewMatcher_libraries_field [of eng mp m]
  by (simp add: names_set_def)

lemma Match_libraries_names_set:
  "names_set lm \<Longrightarrow>
   Match_libraries eng lm library = Inr (list_all (\<lambda>matcher. library_accepts eng matcher library) lm)"
  by (induction lm) (auto simp: names_set_def library_accepts_def split: option.splits)

lemma Match_names_set:
  "names_set (libraries m) \<Longrightarrow>
   Match eng m attrs resource library = Inr (Match_spec eng m attrs resource library)"
  by (auto simp: Match_def Match_spec_def Match_libraries_names_set split: option.splits bool.splits)

text \<open>A matcher that \<^verbatim>\<open>NewMatcher\<close> cannot build, with a \<^verbatim>\<open>nil\<close> name filter, panics.\<close>

lemma Match_nil_name_panics:
  "Match eng \<lparr> libraries = [\<lparr> Name = None, Version = v \<rparr>], attributes = am, resources = rm \<rparr>
     attrs resource library = Inl NilPointerDereference"
  by (simp add: Match_def)

lemma NewMatcher_guarana: "NewMatcher eng guarana_properties = (guarana_matcher, None)"
  by (simp add: NewMatcher_def guarana_properties_def guarana_matcher_def
      NewAttributeConstraint_def)

lemma NewMatcher_lib_a:
  "NewMatcher eng (lib_a_properties Strict) = (lib_a_matcher, None)"
  by (simp add: NewMatcher_def lib_a_properties_def lib_a_matcher_def CreateFilterSet_def)

subsection \<open>The match formula\<close>

text \<open>
  C1. For every matcher built by \<^verbatim>\<open>NewMatcher\<close> and every input, \<^verbatim>\<open>Match\<close> returns the
  conjunction of the specification: every library constraint accepts the scope, the resource
  matcher, if configured, accepts the resource attributes, and the attributes matcher accepts
  the attribute map, an absent attributes matcher counting as true. Equally, it is false as
  soon as a library constraint rejects the scope, false as soon as the configured resource
  matcher rejects the resource attributes, and otherwise the verdict of the attributes
  matcher, whether one is configured or not.
\<close>

theorem Match_formula:
  assumes "NewMatcher eng mp = (m, None)"
  shows "Match eng m attrs resource library = Inr (Match_spec eng m attrs resource library)
         \<and> Match eng m attrs resource library
            = (if \<not> list_all (\<lambda>matcher. library_accepts eng matcher library) (libraries m)
               then Inr False
               else if resources m \<noteq> None
                       \<and> \<not> AttributesMatcher_Match eng (resources m) (Resource_Attributes resource)
               then Inr False
               else Inr (AttributesMatcher_Match eng (attributes m) attrs))"
proof -
  have n: "names_set (libraries m)"
    using assms by (rule NewMatcher_names_set)
  then have "Match eng m attrs resource library = Inr (Match_spec eng m attrs resource library)"
    by (rule Match_names_set)
  moreover have "Match eng m attrs resource library
            = (if \<not> list_all (\<lambda>matcher. library_accepts eng matcher library) (libraries m)
               then Inr False
               else if resources m \<noteq> None
                       \<and> \<not> AttributesMatcher_Match eng (resources m) (Resource_Attributes resource)
               then Inr False
               else Inr (AttributesMatcher_Match eng (attributes m) attrs))"
    by (simp add: Match_def Match_libraries_names_set [OF n])
  ultimately show ?thesis by (rule conjI)
qed

theorem Match_formula_witness:
  "NewMatcher literal_engine guarana_properties = (guarana_matcher, None)
   \<and> Match literal_engine guarana_matcher [''http.status'' \<mapsto> ValueInt 200]
        \<lparr> Resource_Attributes = [''host.name'' \<mapsto> ValueStr ''guarana''] \<rparr>
        \<lparr> Scope_Name = ''lib-a'', Scope_Version = ''1.0'' \<rparr> = Inr True
   \<and> Match literal_engine guarana_matcher Map.empty
        \<lparr> Resource_Attributes = [''host.name'' \<mapsto> ValueStr ''guarana''] \<rparr>
        \<lparr> Scope_Name = ''lib-a'', Scope_Version = ''1.0'' \<rparr> = Inr False"
  using Match_formula [OF NewMatcher_guarana, of literal_engine, THEN conjunct1]
  by (simp add: NewMatcher_guarana Match_spec_def guarana_matcher_def)

text \<open>
  C2. A matcher built from properties with no library, attribute or resource constraint is
  the zero matcher, and \<^verbatim>\<open>Match\<close> returns true on every input, empty maps and an empty
  scope name and version included.
\<close>

theorem Match_empty_properties:
  assumes "Libraries mp = []" and "Attributes mp = []" and "Resources mp = []"
  shows "NewMatcher eng mp = (PropertiesMatcher_zero, None)
         \<and> Match eng (fst (NewMatcher eng mp)) attrs resource library = Inr True"
  using assms by (simp add: NewMatcher_def PropertiesMatcher_zero_def Match_def)

theorem Match_empty_properties_witness:
  "Match literal_engine
     (fst (NewMatcher literal_engine
        \<lparr> Config = \<lparr> MatchType = Regexp \<rparr>, Libraries = [], Attributes = [], Resources = [] \<rparr>))
     Map.empty \<lparr> Resource_Attributes = Map.empty \<rparr> \<lparr> Scope_Name = [], Scope_Version = [] \<rparr>
   = Inr True"
proof -
  let ?mp = "\<lparr> Config = \<lparr> MatchType = Regexp \<rparr>, Libraries = [], Attributes = [], Resources = [] \<rparr>"
  have "Libraries ?mp = []" and "Attributes ?mp = []" and "Resources ?mp = []"
    by simp_all
  from Match_empty_properties [OF this] show ?thesis by blast
qed

text \<open>
  C3. With a resource constraint and an attribute constraint configured, a record whose
  resource attributes fail the resource constraint is rejected whatever its own attributes
  are, and whatever the attributes matcher is: the verdict is reached without it. The
  evaluation is the record without \<^verbatim>\<open>host.name\<close> whose attributes do hold
  \<^verbatim>\<open>http.status\<close>.
\<close>

theorem Match_resource_gate:
  assumes "NewMatcher eng mp = (m, None)"
    and "resources m = Some rm"
    and "\<not> AttributesMatcher_Match eng (Some rm) (Resource_Attributes resource)"
  shows "Match eng m attrs resource library = Inr False
         \<and> Match eng (m\<lparr> attributes := am \<rparr>) attrs resource library = Inr False"
proof -
  have "names_set (libraries m)"
    using assms(1) by (rule NewMatcher_names_set)
  then have l: "Match_libraries eng (libraries m) library
      = Inr (list_all (\<lambda>matcher. library_accepts eng matcher library) (libraries m))"
    by (rule Match_libraries_names_set)
  show ?thesis
    using assms(2,3) by (simp add: Match_def l split: bool.splits)
qed

theorem Match_resource_gate_witness:
  "AttributesMatcher_Match literal_engine (attributes guarana_matcher) [''http.status'' \<mapsto> ValueInt 200]
   \<and> Match literal_engine guarana_matcher [''http.status'' \<mapsto> ValueInt 200]
        \<lparr> Resource_Attributes = Map.empty \<rparr>
        \<lparr> Scope_Name = ''lib-a'', Scope_Version = ''1.0'' \<rparr> = Inr False"
proof -
  have r: "resources (guarana_matcher :: re_item list PropertiesMatcher)
      = Some [ValueStrict ''host.name'' (ValueStr ''guarana'')]"
    by (simp add: guarana_matcher_def)
  have n: "\<not> AttributesMatcher_Match literal_engine
      (Some [ValueStrict ''host.name'' (ValueStr ''guarana'')])
      (Resource_Attributes \<lparr> Resource_Attributes = Map.empty \<rparr>)"
    by simp
  show ?thesis
    using Match_resource_gate [OF NewMatcher_guarana r n]
    by (simp add: guarana_matcher_def)
qed

text \<open>
  C6. On a matcher built by \<^verbatim>\<open>NewMatcher\<close>, \<^verbatim>\<open>Match\<close> returns a boolean on every input
  and never panics. When no attribute constraint is configured the attributes matcher is
  \<^verbatim>\<open>nil\<close>, and the final call on it still returns, with true.
\<close>

theorem Match_total:
  assumes "NewMatcher eng mp = (m, None)"
  shows "(\<exists>b. Match eng m attrs resource library = Inr b)
         \<and> (Attributes mp = [] \<longrightarrow>
               attributes m = None \<and> AttributesMatcher_Match eng (attributes m) attrs)"
proof -
  have "Match eng m attrs resource library = Inr (Match_spec eng m attrs resource library)"
    using assms by (simp add: Match_names_set NewMatcher_names_set)
  moreover have "Attributes mp = [] \<Longrightarrow> attributes m = None"
    using assms by (auto simp: NewMatcher_def split: sum.splits if_splits)
  ultimately show ?thesis by auto
qed

theorem Match_total_witness:
  "(\<exists>b. Match literal_engine lib_a_matcher Map.empty \<lparr> Resource_Attributes = Map.empty \<rparr>
          \<lparr> Scope_Name = [], Scope_Version = [] \<rparr> = Inr b)
   \<and> attributes (lib_a_matcher :: re_item list PropertiesMatcher) = None
   \<and> AttributesMatcher_Match literal_engine (attributes lib_a_matcher) Map.empty"
proof -
  have "Attributes (lib_a_properties Strict) = []"
    by (simp add: lib_a_properties_def)
  with Match_total [OF NewMatcher_lib_a, of literal_engine Map.empty
      "\<lparr> Resource_Attributes = Map.empty \<rparr>" "\<lparr> Scope_Name = [], Scope_Version = [] \<rparr>"]
  show ?thesis by blast
qed

subsection \<open>The reference engine\<close>

lemma Compile_literal_engine:
  "Compile literal_engine pattern =
     (case parse_items pattern of
        None \<Rightarrow> Inl (errorString (''error parsing regexp: '' @ pattern))
      | Some items \<Rightarrow> Inr items)"
  by (simp add: literal_engine_def)

lemma MatchString_literal_engine:
  "MatchString literal_engine items text = search_from items True text"
  by (simp add: literal_engine_def)

subsection \<open>Library constraints\<close>

lemma Match_libraries_prefix:
  "list_all (\<lambda>x. library_accepts eng x library) pre \<Longrightarrow>
   Match_libraries eng (pre @ rest) library = Match_libraries eng rest library"
  by (induction pre) (auto simp: library_accepts_def split: option.splits)

lemma Match_libraries_reject:
  "Name matcher \<noteq> None \<Longrightarrow> \<not> library_accepts eng matcher library \<Longrightarrow>
   Match_libraries eng (matcher # rest) library = Inr False"
  by (auto simp: library_accepts_def split: option.splits)

lemma NewMatcher_lib_a_regexp:
  "NewMatcher literal_engine (lib_a_properties Regexp) =
      (\<lparr> libraries = [\<lparr> Name = Some (RegexpFilterSet [[Lit CHR ''l'', Lit CHR ''i'', Lit CHR ''b'', Lit CHR ''-'', Lit CHR ''a'']]), Version = None \<rparr>],
         attributes = None, resources = None \<rparr>, None)"
  by (simp add: NewMatcher_def lib_a_properties_def CreateFilterSet_def Compile_literal_engine is_meta_def)

lemma Match_libraries_no_version:
  "list_all (\<lambda>x. Version x = None) lm \<Longrightarrow>
   Match_libraries eng lm \<lparr> Scope_Name = n, Scope_Version = v \<rparr>
   = Match_libraries eng lm \<lparr> Scope_Name = n, Scope_Version = v' \<rparr>"
  by (induction lm) (auto split: option.splits)

lemma Match_no_version:
  "list_all (\<lambda>x. Version x = None) (libraries m) \<Longrightarrow>
   Match eng m attrs resource \<lparr> Scope_Name = n, Scope_Version = v \<rparr>
   = Match eng m attrs resource \<lparr> Scope_Name = n, Scope_Version = v' \<rparr>"
  using Match_libraries_no_version [of "libraries m" eng n v v']
  by (simp add: Match_def)

text \<open>
  C4. The library constraints are checked in the order of the configuration: when the
  constraints before one all accept the scope and that one rejects it, by its name filter or
  by its configured version filter, \<^verbatim>\<open>Match\<close> returns false whatever follows, a constraint
  that would panic included. A matcher whose constraints configure no version gives the same
  result for every scope version. The single constraint \<^verbatim>\<open>{name: "lib-a"}\<close> accepts the
  scope name \<^verbatim>\<open>lib-a\<close> with any version and rejects \<^verbatim>\<open>lib-b\<close>, under both strategies.
\<close>

theorem Match_libraries_in_order:
  "(libraries m = pre @ matcher # rest
      \<and> list_all (\<lambda>x. library_accepts eng x library) pre
      \<and> Name matcher \<noteq> None \<and> \<not> library_accepts eng matcher library
    \<longrightarrow> Match eng m attrs resource library = Inr False)
   \<and> (list_all (\<lambda>x. Version x = None) (libraries m)
    \<longrightarrow> Match eng m attrs resource \<lparr> Scope_Name = n, Scope_Version = v \<rparr>
        = Match eng m attrs resource \<lparr> Scope_Name = n, Scope_Version = v' \<rparr>)
   \<and> Match eng (fst (NewMatcher eng (lib_a_properties Strict))) attrs resource
        \<lparr> Scope_Name = ''lib-a'', Scope_Version = v \<rparr> = Inr True
   \<and> Match eng (fst (NewMatcher eng (lib_a_properties Strict))) attrs resource
        \<lparr> Scope_Name = ''lib-b'', Scope_Version = v \<rparr> = Inr False
   \<and> Match literal_engine (fst (NewMatcher literal_engine (lib_a_properties Regexp))) attrs resource
        \<lparr> Scope_Name = ''lib-a'', Scope_Version = v \<rparr> = Inr True
   \<and> Match literal_engine (fst (NewMatcher literal_engine (lib_a_properties Regexp))) attrs resource
        \<lparr> Scope_Name = ''lib-b'', Scope_Version = v \<rparr> = Inr False"
proof -
  have a: "Match eng m attrs resource library = Inr False"
    if "libraries m = pre @ matcher # rest"
      and "list_all (\<lambda>x. library_accepts eng x library) pre"
      and "Name matcher \<noteq> None" and "\<not> library_accepts eng matcher library"
  proof -
    have "Match_libraries eng (libraries m) library = Inr False"
      using that Match_libraries_prefix [of eng library pre "matcher # rest"]
        Match_libraries_reject [of matcher eng library rest]
      by simp
    then show ?thesis by (simp add: Match_def)
  qed
  have b: "Match eng m attrs resource \<lparr> Scope_Name = n, Scope_Version = v \<rparr>
        = Match eng m attrs resource \<lparr> Scope_Name = n, Scope_Version = v' \<rparr>"
    if "list_all (\<lambda>x. Version x = None) (libraries m)"
    using that by (rule Match_no_version)
  have c: "Match eng (fst (NewMatcher eng (lib_a_properties Strict))) attrs resource
        \<lparr> Scope_Name = ''lib-a'', Scope_Version = v \<rparr> = Inr True"
    by (simp add: NewMatcher_lib_a lib_a_matcher_def Match_def)
  have d: "Match eng (fst (NewMatcher eng (lib_a_properties Strict))) attrs resource
        \<lparr> Scope_Name = ''lib-b'', Scope_Version = v \<rparr> = Inr False"
    by (simp add: NewMatcher_lib_a lib_a_matcher_def Match_def)
  have e: "Match literal_engine (fst (NewMatcher literal_engine (lib_a_properties Regexp))) attrs resource
        \<lparr> Scope_Name = ''lib-a'', Scope_Version = v \<rparr> = Inr True"
    by (simp add: NewMatcher_lib_a_regexp Match_def MatchString_literal_engine)
  have f: "Match literal_engine (fst (NewMatcher literal_engine (lib_a_properties Regexp))) attrs resource
        \<lparr> Scope_Name = ''lib-b'', Scope_Version = v \<rparr> = Inr False"
    by (simp add: NewMatcher_lib_a_regexp Match_def MatchString_literal_engine)
  from a b c d e f show ?thesis by blast
qed

theorem Match_libraries_in_order_witness:
  "Match literal_engine ordered_matcher Map.empty \<lparr> Resource_Attributes = Map.empty \<rparr>
     \<lparr> Scope_Name = ''lib-a'', Scope_Version = ''1.0'' \<rparr> = Inr False
   \<and> Match literal_engine lib_a_matcher Map.empty \<lparr> Resource_Attributes = Map.empty \<rparr>
       \<lparr> Scope_Name = ''lib-a'', Scope_Version = ''1.0'' \<rparr>
     = Match literal_engine lib_a_matcher Map.empty \<lparr> Resource_Attributes = Map.empty \<rparr>
       \<lparr> Scope_Name = ''lib-a'', Scope_Version = ''2.0'' \<rparr>"
proof -
  let ?a = "\<lparr> Name = Some (StrictFilterSet [''lib-a'']), Version = None \<rparr>
            :: re_item list instrumentationLibraryMatcher"
  let ?b = "\<lparr> Name = Some (StrictFilterSet [''lib-a'']), Version = Some (StrictFilterSet [''2.0'']) \<rparr>
            :: re_item list instrumentationLibraryMatcher"
  let ?c = "\<lparr> Name = None, Version = None \<rparr> :: re_item list instrumentationLibraryMatcher"
  let ?library = "\<lparr> Scope_Name = ''lib-a'', Scope_Version = ''1.0'' \<rparr>"
  have "libraries (ordered_matcher :: re_item list PropertiesMatcher) = [?a] @ ?b # [?c]
      \<and> list_all (\<lambda>x. library_accepts literal_engine x ?library) [?a]
      \<and> Name ?b \<noteq> None \<and> \<not> library_accepts literal_engine ?b ?library"
    by (simp add: ordered_matcher_def library_accepts_def)
  with Match_libraries_in_order
    [where eng = literal_engine and m = ordered_matcher and pre = "[?a]" and matcher = ?b
       and rest = "[?c]" and library = ?library and attrs = Map.empty
       and resource = "\<lparr> Resource_Attributes = Map.empty \<rparr>"]
  have 1: "Match literal_engine ordered_matcher Map.empty \<lparr> Resource_Attributes = Map.empty \<rparr>
     ?library = Inr False"
    by blast
  have "list_all (\<lambda>x. Version x = None) (libraries (lib_a_matcher :: re_item list PropertiesMatcher))"
    by (simp add: lib_a_matcher_def)
  with Match_libraries_in_order
    [where eng = literal_engine and m = lib_a_matcher and n = "''lib-a''" and v = "''1.0''"
       and v' = "''2.0''" and attrs = Map.empty
       and resource = "\<lparr> Resource_Attributes = Map.empty \<rparr>"]
  have 2: "Match literal_engine lib_a_matcher Map.empty \<lparr> Resource_Attributes = Map.empty \<rparr>
       \<lparr> Scope_Name = ''lib-a'', Scope_Version = ''1.0'' \<rparr>
     = Match literal_engine lib_a_matcher Map.empty \<lparr> Resource_Attributes = Map.empty \<rparr>
       \<lparr> Scope_Name = ''lib-a'', Scope_Version = ''2.0'' \<rparr>"
    by blast
  from 1 2 show ?thesis by (rule conjI)
qed

subsection \<open>Errors of NewMatcher\<close>

lemma NewMatcher_libraries_error:
  "NewMatcher_libraries eng config libs lm = Inl err \<Longrightarrow>
   (\<exists>l cause. l \<in> set libs \<and> name_fails eng config l cause
       \<and> err = fmt_Errorf ''error creating library name filters'' cause)
   \<or> (\<exists>l cause. l \<in> set libs \<and> version_fails eng config l cause
       \<and> err = fmt_Errorf ''error creating library version filters'' cause)"
proof (induction libs arbitrary: lm)
  case Nil
  then show ?case by simp
next
  case (Cons library rest)
  show ?case
  proof (cases "CreateFilterSet eng [Library_Name library] config")
    case (Inl cause)
    with Cons.prems show ?thesis by (auto simp: name_fails_def)
  next
    case name: (Inr name)
    show ?thesis
    proof (cases "Library_Version library")
      case None
      with name Cons.prems Cons.IH [of "lm @ [\<lparr> Name = Some name, Version = None \<rparr>]"]
      show ?thesis by auto
    next
      case (Some v)
      show ?thesis
      proof (cases "CreateFilterSet eng [v] config")
        case (Inl cause)
        with name Some Cons.prems show ?thesis by (auto simp: version_fails_def)
      next
        case (Inr f)
        with name Some Cons.prems Cons.IH [of "lm @ [\<lparr> Name = Some name, Version = Some f \<rparr>]"]
        show ?thesis by auto
      qed
    qed
  qed
qed

lemma NewMatcher_libraries_fails:
  "l \<in> set libs \<Longrightarrow> name_fails eng config l cause \<or> version_fails eng config l cause \<Longrightarrow>
   \<exists>err. NewMatcher_libraries eng config libs lm = Inl err"
proof (induction libs arbitrary: lm)
  case Nil
  then show ?case by simp
next
  case (Cons library rest)
  show ?case
  proof (cases "l = library")
    case True
    with Cons.prems(2) show ?thesis
      by (auto simp: name_fails_def version_fails_def split: sum.splits option.splits)
  next
    case False
    with Cons.prems have "l \<in> set rest" by simp
    from Cons.IH [OF this Cons.prems(2)] show ?thesis
      by (auto split: sum.splits option.splits)
  qed
qed

lemma library_fails_iff:
  "library_fails eng config l
   \<longleftrightarrow> (\<exists>cause. name_fails eng config l cause \<or> version_fails eng config l cause)"
proof (cases "CreateFilterSet eng [Library_Name l] config")
  case (Inl e)
  then have "name_fails eng config l e" by (simp add: name_fails_def)
  with Inl show ?thesis by (auto simp: library_fails_def)
next
  case name: (Inr fs)
  then have n: "\<not> name_fails eng config l cause" for cause
    by (simp add: name_fails_def)
  show ?thesis
  proof (cases "Library_Version l")
    case None
    with name n show ?thesis by (simp add: library_fails_def version_fails_def)
  next
    case (Some v)
    show ?thesis
    proof (cases "CreateFilterSet eng [v] config")
      case (Inl e)
      with Some have "version_fails eng config l e" by (simp add: version_fails_def)
      with Inl Some show ?thesis by (auto simp: library_fails_def)
    next
      case (Inr fs')
      with name n Some show ?thesis by (simp add: library_fails_def version_fails_def)
    qed
  qed
qed

lemma Unwrap_fmt_Errorf: "Unwrap (fmt_Errorf context cause) = Some cause"
  by (simp add: fmt_Errorf_def)

lemma field_failure_name:
  assumes "l \<in> set (Libraries mp)" and "name_fails eng (Config mp) l cause"
  shows "field_failure eng mp ''error creating library name filters'' cause"
proof -
  have "list_ex (\<lambda>l. name_fails eng (Config mp) l cause) (Libraries mp)"
    using assms by (auto simp: list_ex_iff)
  then show ?thesis by (simp add: field_failure_def)
qed

lemma field_failure_version:
  assumes "l \<in> set (Libraries mp)" and "version_fails eng (Config mp) l cause"
  shows "field_failure eng mp ''error creating library version filters'' cause"
proof -
  have "list_ex (\<lambda>l. version_fails eng (Config mp) l cause) (Libraries mp)"
    using assms by (auto simp: list_ex_iff)
  then show ?thesis by (simp add: field_failure_def)
qed

lemma field_failure_attributes:
  "Attributes mp \<noteq> [] \<Longrightarrow> NewAttributesMatcher eng (Config mp) (Attributes mp) = Inl cause \<Longrightarrow>
   field_failure eng mp ''error creating attribute filters'' cause"
  by (simp add: field_failure_def)

lemma field_failure_resources:
  "Resources mp \<noteq> [] \<Longrightarrow> NewAttributesMatcher eng (Config mp) (Resources mp) = Inl cause \<Longrightarrow>
   field_failure eng mp ''error creating resource filters'' cause"
  by (simp add: field_failure_def)

lemma field_failure_cases:
  assumes "field_failure eng mp context cause"
  shows "list_ex (\<lambda>l. name_fails eng (Config mp) l cause) (Libraries mp)
         \<or> list_ex (\<lambda>l. version_fails eng (Config mp) l cause) (Libraries mp)
         \<or> (Attributes mp \<noteq> [] \<and> NewAttributesMatcher eng (Config mp) (Attributes mp) = Inl cause)
         \<or> (Resources mp \<noteq> [] \<and> NewAttributesMatcher eng (Config mp) (Resources mp) = Inl cause)"
  using assms unfolding field_failure_def
  by (elim disjE conjE) simp_all

lemma NewMatcher_libraries_Inl:
  "NewMatcher_libraries eng (Config mp) (Libraries mp) [] = Inl e \<Longrightarrow>
   NewMatcher eng mp = (PropertiesMatcher_zero, Some e)"
  by (simp add: NewMatcher_def)

lemma NewMatcher_attributes_Inl:
  "NewMatcher_libraries eng (Config mp) (Libraries mp) [] = Inr lm \<Longrightarrow>
   Attributes mp \<noteq> [] \<Longrightarrow>
   NewAttributesMatcher eng (Config mp) (Attributes mp) = Inl cause \<Longrightarrow>
   NewMatcher eng mp
   = (PropertiesMatcher_zero, Some (fmt_Errorf ''error creating attribute filters'' cause))"
  by (simp add: NewMatcher_def)

lemma NewMatcher_resources_Inl:
  "NewMatcher_libraries eng (Config mp) (Libraries mp) [] = Inr lm \<Longrightarrow>
   Attributes mp = [] \<or> NewAttributesMatcher eng (Config mp) (Attributes mp) = Inr am \<Longrightarrow>
   Resources mp \<noteq> [] \<Longrightarrow>
   NewAttributesMatcher eng (Config mp) (Resources mp) = Inl cause \<Longrightarrow>
   NewMatcher eng mp
   = (PropertiesMatcher_zero, Some (fmt_Errorf ''error creating resource filters'' cause))"
  by (cases "Attributes mp = []") (simp_all add: NewMatcher_def)

lemma NewMatcher_Inr:
  "NewMatcher_libraries eng (Config mp) (Libraries mp) [] = Inr lm \<Longrightarrow>
   Attributes mp = [] \<or> NewAttributesMatcher eng (Config mp) (Attributes mp) = Inr am \<Longrightarrow>
   Resources mp = [] \<or> NewAttributesMatcher eng (Config mp) (Resources mp) = Inr rm \<Longrightarrow>
   snd (NewMatcher eng mp) = None"
  by (cases "Attributes mp = []"; cases "Resources mp = []") (simp_all add: NewMatcher_def)

lemma NewMatcher_error_shape:
  assumes "snd (NewMatcher eng mp) = Some err"
  shows "fst (NewMatcher eng mp) = PropertiesMatcher_zero
         \<and> (\<exists>context cause. err = fmt_Errorf context cause \<and> field_failure eng mp context cause)"
proof (cases "NewMatcher_libraries eng (Config mp) (Libraries mp) []")
  case (Inl e)
  from NewMatcher_libraries_Inl [OF Inl] assms
  have z: "fst (NewMatcher eng mp) = PropertiesMatcher_zero" and e: "e = err"
    by simp_all
  from NewMatcher_libraries_error [OF Inl] e
  consider (name) l cause where "l \<in> set (Libraries mp)" "name_fails eng (Config mp) l cause"
      "err = fmt_Errorf ''error creating library name filters'' cause"
    | (version) l cause where "l \<in> set (Libraries mp)" "version_fails eng (Config mp) l cause"
      "err = fmt_Errorf ''error creating library version filters'' cause"
    by (elim disjE exE conjE) simp_all
  then have "\<exists>context cause. err = fmt_Errorf context cause \<and> field_failure eng mp context cause"
  proof cases
    case name
    from name(3) field_failure_name [OF name(1,2)] show ?thesis
      by (intro exI conjI)
  next
    case version
    from version(3) field_failure_version [OF version(1,2)] show ?thesis
      by (intro exI conjI)
  qed
  with z show ?thesis by (rule conjI)
next
  case libs: (Inr lm)
  show ?thesis
  proof (cases "Attributes mp \<noteq> []
      \<and> isl (NewAttributesMatcher eng (Config mp) (Attributes mp))")
    case True
    then obtain cause where a: "Attributes mp \<noteq> []"
      and c: "NewAttributesMatcher eng (Config mp) (Attributes mp) = Inl cause"
      by (cases "NewAttributesMatcher eng (Config mp) (Attributes mp)") simp_all
    from NewMatcher_attributes_Inl [OF libs a c] assms
    have "fst (NewMatcher eng mp) = PropertiesMatcher_zero"
      and "err = fmt_Errorf ''error creating attribute filters'' cause"
      by simp_all
    with field_failure_attributes [OF a c] show ?thesis by (intro conjI exI)
  next
    case False
    then have "\<exists>am. Attributes mp = []
        \<or> NewAttributesMatcher eng (Config mp) (Attributes mp) = Inr am"
      by (cases "NewAttributesMatcher eng (Config mp) (Attributes mp)") simp_all
    then obtain am
      where a: "Attributes mp = [] \<or> NewAttributesMatcher eng (Config mp) (Attributes mp) = Inr am"
      by (elim exE)
    show ?thesis
    proof (cases "Resources mp \<noteq> []
        \<and> isl (NewAttributesMatcher eng (Config mp) (Resources mp))")
      case True
      then obtain cause where r: "Resources mp \<noteq> []"
        and c: "NewAttributesMatcher eng (Config mp) (Resources mp) = Inl cause"
        by (cases "NewAttributesMatcher eng (Config mp) (Resources mp)") simp_all
      from NewMatcher_resources_Inl [OF libs a r c] assms
      have "fst (NewMatcher eng mp) = PropertiesMatcher_zero"
        and "err = fmt_Errorf ''error creating resource filters'' cause"
        by simp_all
      with field_failure_resources [OF r c] show ?thesis by (intro conjI exI)
    next
      case False
      then have "\<exists>rm. Resources mp = []
          \<or> NewAttributesMatcher eng (Config mp) (Resources mp) = Inr rm"
        by (cases "NewAttributesMatcher eng (Config mp) (Resources mp)") simp_all
      then obtain rm
        where r: "Resources mp = [] \<or> NewAttributesMatcher eng (Config mp) (Resources mp) = Inr rm"
        by (elim exE)
      from NewMatcher_Inr [OF libs a r] assms show ?thesis by simp
    qed
  qed
qed

lemma isl_obtain: "isl x \<Longrightarrow> \<exists>e. x = Inl e"
  by (cases x) simp_all

lemma NewMatcher_attributes_error:
  "Attributes mp \<noteq> [] \<Longrightarrow> NewAttributesMatcher eng (Config mp) (Attributes mp) = Inl e \<Longrightarrow>
   snd (NewMatcher eng mp) \<noteq> None"
  by (cases "NewMatcher_libraries eng (Config mp) (Libraries mp) []") (simp_all add: NewMatcher_def)

lemma NewMatcher_resources_error:
  "Resources mp \<noteq> [] \<Longrightarrow> NewAttributesMatcher eng (Config mp) (Resources mp) = Inl e \<Longrightarrow>
   snd (NewMatcher eng mp) \<noteq> None"
  by (cases "NewMatcher_libraries eng (Config mp) (Libraries mp) []";
      cases "NewAttributesMatcher eng (Config mp) (Attributes mp)")
    (simp_all add: NewMatcher_def)

lemma NewMatcher_libraries_error_result:
  "NewMatcher_libraries eng (Config mp) (Libraries mp) [] = Inl e \<Longrightarrow>
   snd (NewMatcher eng mp) \<noteq> None"
  by (simp add: NewMatcher_def)

lemma NewMatcher_error_complete:
  assumes "compilation_fails eng mp"
  shows "snd (NewMatcher eng mp) \<noteq> None"
proof -
  consider (lib) "list_ex (library_fails eng (Config mp)) (Libraries mp)"
    | (att) "Attributes mp \<noteq> []" "isl (NewAttributesMatcher eng (Config mp) (Attributes mp))"
    | (res) "Resources mp \<noteq> []" "isl (NewAttributesMatcher eng (Config mp) (Resources mp))"
    using assms unfolding compilation_fails_def by blast
  then show ?thesis
  proof cases
    case lib
    then obtain l cause where "l \<in> set (Libraries mp)"
      and "name_fails eng (Config mp) l cause \<or> version_fails eng (Config mp) l cause"
      unfolding list_ex_iff library_fails_iff by blast
    from NewMatcher_libraries_fails [OF this, of "[]"] show ?thesis
      using NewMatcher_libraries_error_result by blast
  next
    case att
    from isl_obtain [OF att(2)] NewMatcher_attributes_error [OF att(1)] show ?thesis by blast
  next
    case res
    from isl_obtain [OF res(2)] NewMatcher_resources_error [OF res(1)] show ?thesis by blast
  qed
qed

lemma field_failure_compilation_fails:
  assumes "field_failure eng mp context cause"
  shows "compilation_fails eng mp"
proof -
  from field_failure_cases [OF assms]
  consider (name) l where "l \<in> set (Libraries mp)" "name_fails eng (Config mp) l cause"
    | (version) l where "l \<in> set (Libraries mp)" "version_fails eng (Config mp) l cause"
    | (att) "Attributes mp \<noteq> []" "NewAttributesMatcher eng (Config mp) (Attributes mp) = Inl cause"
    | (res) "Resources mp \<noteq> []" "NewAttributesMatcher eng (Config mp) (Resources mp) = Inl cause"
    unfolding list_ex_iff by blast
  then show ?thesis
  proof cases
    case name
    then have "list_ex (library_fails eng (Config mp)) (Libraries mp)"
      unfolding list_ex_iff library_fails_iff by blast
    then show ?thesis by (simp add: compilation_fails_def)
  next
    case version
    then have "list_ex (library_fails eng (Config mp)) (Libraries mp)"
      unfolding list_ex_iff library_fails_iff by blast
    then show ?thesis by (simp add: compilation_fails_def)
  next
    case att
    then show ?thesis by (simp add: compilation_fails_def)
  next
    case res
    then show ?thesis by (simp add: compilation_fails_def)
  qed
qed

lemma NewMatcher_bad_library:
  "NewMatcher literal_engine bad_library_properties = (PropertiesMatcher_zero, Some bad_library_error)"
  by (simp add: NewMatcher_def bad_library_properties_def bad_library_error_def CreateFilterSet_def
      Compile_literal_engine is_meta_def)

text \<open>
  C5. \<^verbatim>\<open>NewMatcher\<close> returns an error exactly when one of the compilations it asks for
  fails. The error then wraps the cause, the error of the failing compilation, under the
  context that names the field (library name, library version, attribute, resource), and the
  matcher returned with it is the zero \<^verbatim>\<open>PropertiesMatcher\<close>, never a partly built one.
\<close>

theorem NewMatcher_fails_atomically:
  "(compilation_fails eng mp \<longleftrightarrow> snd (NewMatcher eng mp) \<noteq> None)
   \<and> (snd (NewMatcher eng mp) = Some err \<longrightarrow>
        fst (NewMatcher eng mp) = PropertiesMatcher_zero
        \<and> (\<exists>context cause. err = fmt_Errorf context cause \<and> Unwrap err = Some cause
              \<and> field_failure eng mp context cause))"
proof -
  have "compilation_fails eng mp" if "snd (NewMatcher eng mp) \<noteq> None"
  proof -
    from that obtain e where "snd (NewMatcher eng mp) = Some e" by auto
    from NewMatcher_error_shape [OF this] show ?thesis
      by (auto dest: field_failure_compilation_fails)
  qed
  moreover have "fst (NewMatcher eng mp) = PropertiesMatcher_zero
        \<and> (\<exists>context cause. err = fmt_Errorf context cause \<and> Unwrap err = Some cause
              \<and> field_failure eng mp context cause)"
    if "snd (NewMatcher eng mp) = Some err"
    using NewMatcher_error_shape [OF that] by (auto simp: Unwrap_fmt_Errorf)
  ultimately show ?thesis
    using NewMatcher_error_complete [of eng mp] by blast
qed

theorem NewMatcher_fails_atomically_witness:
  "snd (NewMatcher literal_engine bad_library_properties) = Some bad_library_error
   \<and> compilation_fails literal_engine bad_library_properties
   \<and> fst (NewMatcher literal_engine bad_library_properties) = PropertiesMatcher_zero
   \<and> (\<exists>context cause.
         bad_library_error = fmt_Errorf context cause
         \<and> Unwrap bad_library_error = Some cause
         \<and> field_failure literal_engine bad_library_properties context cause)"
proof -
  have s: "snd (NewMatcher literal_engine bad_library_properties) = Some bad_library_error"
    by (simp only: NewMatcher_bad_library snd_conv)
  then have n: "snd (NewMatcher literal_engine bad_library_properties) \<noteq> None"
    by simp
  from NewMatcher_fails_atomically [of literal_engine bad_library_properties bad_library_error] s n
  show ?thesis by blast
qed

subsection \<open>Regular-expression filter sets\<close>

lemma compile_patterns_search:
  "compile_patterns eng ps = Inr rs \<Longrightarrow>
   list_ex (\<lambda>r. MatchString eng r v) rs
   = (\<exists>p\<in>set ps. \<exists>r. Compile eng p = Inr r \<and> MatchString eng r v)"
  by (induction ps arbitrary: rs) (auto split: sum.splits)

lemma is_meta_anchors: "\<not> is_meta c \<Longrightarrow> c \<noteq> CHR ''^'' \<and> c \<noteq> CHR ''$''"
  by (auto simp: is_meta_def)

lemma parse_items_literal: "\<not> list_ex is_meta p \<Longrightarrow> parse_items p = Some (map Lit p)"
  by (induction p) (auto dest: is_meta_anchors)

lemma match_here_literal: "match_here (map Lit p) b str = (\<exists>post. str = p @ post)"
proof (induction p arbitrary: b str)
  case Nil
  then show ?case by simp
next
  case (Cons c p)
  then show ?case by (cases str) auto
qed

lemma search_from_literal:
  "search_from (map Lit p) b str = (\<exists>pre post. str = pre @ p @ post)"
proof (induction str arbitrary: b)
  case Nil
  then show ?case by (simp add: match_here_literal)
next
  case (Cons d str)
  have "(\<exists>pre post. d # str = pre @ p @ post)
      \<longleftrightarrow> (\<exists>post. d # str = p @ post) \<or> (\<exists>pre post. str = pre @ p @ post)"
  proof
    assume "\<exists>pre post. d # str = pre @ p @ post"
    then obtain pre post where e: "d # str = pre @ p @ post" by blast
    show "(\<exists>post. d # str = p @ post) \<or> (\<exists>pre post. str = pre @ p @ post)"
    proof (cases pre)
      case Nil
      with e show ?thesis by auto
    next
      case (Cons x pre')
      with e have "str = pre' @ p @ post" by simp
      then show ?thesis by blast
    qed
  next
    assume "(\<exists>post. d # str = p @ post) \<or> (\<exists>pre post. str = pre @ p @ post)"
    then show "\<exists>pre post. d # str = pre @ p @ post"
    proof
      assume "\<exists>post. d # str = p @ post"
      then obtain post where "d # str = [] @ p @ post" by auto
      then show ?thesis by blast
    next
      assume "\<exists>pre post. str = pre @ p @ post"
      then obtain pre post where "d # str = (d # pre) @ p @ post" by auto
      then show ?thesis by blast
    qed
  qed
  with Cons show ?case by (simp add: match_here_literal)
qed

lemma CreateFilterSet_abc:
  "CreateFilterSet literal_engine [''^abc''] \<lparr> MatchType = Regexp \<rparr>
   = Inr (RegexpFilterSet [[Bol, Lit CHR ''a'', Lit CHR ''b'', Lit CHR ''c'']])"
  by (simp add: CreateFilterSet_def Compile_literal_engine is_meta_def)

text \<open>
  C7. A filter set built under REGEXP matches a value iff the search of at least one of its
  patterns, compiled, succeeds on the value. With the reference engine the search of a
  pattern without metacharacters succeeds exactly on the values that contain it, so it is a
  substring search and not an equality; and the pattern \<^verbatim>\<open>^abc\<close> matches
  \<^verbatim>\<open>abcdef\<close> and does not match \<^verbatim>\<open>xabc\<close>.
\<close>

theorem Regexp_Matches_search:
  "(MatchType config = Regexp \<and> CreateFilterSet eng patterns config = Inr fs
    \<longrightarrow> Matches eng fs v
        = (\<exists>p\<in>set patterns. \<exists>r. Compile eng p = Inr r \<and> MatchString eng r v))
   \<and> (\<not> list_ex is_meta p
    \<longrightarrow> (\<exists>r. Compile literal_engine p = Inr r
           \<and> MatchString literal_engine r v = (\<exists>pre post. v = pre @ p @ post)))
   \<and> (\<exists>fs. CreateFilterSet literal_engine [''^abc''] \<lparr> MatchType = Regexp \<rparr> = Inr fs
           \<and> Matches literal_engine fs ''abcdef''
           \<and> \<not> Matches literal_engine fs ''xabc'')"
proof -
  have a: "Matches eng fs v
        = (\<exists>p\<in>set patterns. \<exists>r. Compile eng p = Inr r \<and> MatchString eng r v)"
    if "MatchType config = Regexp" and "CreateFilterSet eng patterns config = Inr fs"
  proof -
    from that obtain rs where "compile_patterns eng patterns = Inr rs" and "fs = RegexpFilterSet rs"
      by (auto simp: CreateFilterSet_def split: sum.splits)
    then show ?thesis by (simp add: compile_patterns_search)
  qed
  have b: "\<exists>r. Compile literal_engine p = Inr r
           \<and> MatchString literal_engine r v = (\<exists>pre post. v = pre @ p @ post)"
    if "\<not> list_ex is_meta p"
    using parse_items_literal [OF that]
    by (simp add: Compile_literal_engine MatchString_literal_engine search_from_literal)
  have c: "\<exists>fs. CreateFilterSet literal_engine [''^abc''] \<lparr> MatchType = Regexp \<rparr> = Inr fs
           \<and> Matches literal_engine fs ''abcdef''
           \<and> \<not> Matches literal_engine fs ''xabc''"
    by (simp add: CreateFilterSet_abc MatchString_literal_engine)
  from a b c show ?thesis by blast
qed

lemma CreateFilterSet_abc_xyz:
  "CreateFilterSet literal_engine [''^abc'', ''xyz''] \<lparr> MatchType = Regexp \<rparr>
   = Inr abc_xyz_filters"
  by (simp add: CreateFilterSet_def Compile_literal_engine is_meta_def abc_xyz_filters_def)

theorem Regexp_Matches_search_witness:
  "CreateFilterSet literal_engine [''^abc'', ''xyz''] \<lparr> MatchType = Regexp \<rparr>
     = Inr abc_xyz_filters
   \<and> Matches literal_engine abc_xyz_filters ''wxyz''
       = (\<exists>p\<in>set [''^abc'', ''xyz''].
            \<exists>r. Compile literal_engine p = Inr r \<and> MatchString literal_engine r ''wxyz'')
   \<and> Matches literal_engine abc_xyz_filters ''wxyz''
   \<and> (\<exists>r. Compile literal_engine ''xyz'' = Inr r
          \<and> MatchString literal_engine r ''wxyz'' = (\<exists>pre post. ''wxyz'' = pre @ ''xyz'' @ post))"
proof -
  note t = Regexp_Matches_search
    [where eng = literal_engine and config = "\<lparr> MatchType = Regexp \<rparr>"
       and patterns = "[''^abc'', ''xyz'']" and fs = abc_xyz_filters and v = "''wxyz''"
       and p = "''xyz''"]
  have m: "MatchType \<lparr> MatchType = Regexp \<rparr> = Regexp
      \<and> CreateFilterSet literal_engine [''^abc'', ''xyz''] \<lparr> MatchType = Regexp \<rparr>
          = Inr abc_xyz_filters"
    by (simp add: CreateFilterSet_abc_xyz)
  have e: "Matches literal_engine abc_xyz_filters ''wxyz''
       = (\<exists>p\<in>set [''^abc'', ''xyz''].
            \<exists>r. Compile literal_engine p = Inr r \<and> MatchString literal_engine r ''wxyz'')"
    using t [THEN conjunct1] m by (rule mp)
  have n: "\<not> list_ex is_meta ''xyz''"
    by (simp add: is_meta_def)
  have s: "\<exists>r. Compile literal_engine ''xyz'' = Inr r
          \<and> MatchString literal_engine r ''wxyz'' = (\<exists>pre post. ''wxyz'' = pre @ ''xyz'' @ post)"
    using t [THEN conjunct2, THEN conjunct1] n by (rule mp)
  have "Matches literal_engine abc_xyz_filters ''wxyz''"
    by (simp add: MatchString_literal_engine abc_xyz_filters_def)
  with e s CreateFilterSet_abc_xyz show ?thesis by (intro conjI)
qed

subsection \<open>An empty version string is a version\<close>

lemma NewMatcher_libraries_version_compiled:
  "NewMatcher_libraries eng config libs lm = Inr lm' \<Longrightarrow>
   \<exists>ms. lm' = lm @ ms \<and> list_all2 (version_compiled eng config) libs ms"
proof (induction libs arbitrary: lm)
  case Nil
  then show ?case by simp
next
  case (Cons library rest)
  from Cons.prems obtain name v
    where r: "NewMatcher_libraries eng config rest (lm @ [\<lparr> Name = Some name, Version = v \<rparr>]) = Inr lm'"
      and c: "version_compiled eng config library \<lparr> Name = Some name, Version = v \<rparr>"
    by (auto simp: version_compiled_def split: sum.splits option.splits)
  from Cons.IH [OF r] obtain ms
    where "lm' = (lm @ [\<lparr> Name = Some name, Version = v \<rparr>]) @ ms"
      and "list_all2 (version_compiled eng config) rest ms"
    by blast
  with c have "lm' = lm @ (\<lparr> Name = Some name, Version = v \<rparr> # ms)
      \<and> list_all2 (version_compiled eng config) (library # rest) (\<lparr> Name = Some name, Version = v \<rparr> # ms)"
    by simp
  then show ?case by blast
qed

lemma NewMatcher_version_compiled:
  assumes "NewMatcher eng mp = (m, None)"
  shows "list_all2 (version_compiled eng (Config mp)) (Libraries mp) (libraries m)"
  using NewMatcher_libraries_version_compiled [OF NewMatcher_libraries_field [OF assms]]
  by simp

lemma NewMatcher_one_library_version:
  "NewMatcher eng (one_library_properties n (Some v)) =
     (\<lparr> libraries = [\<lparr> Name = Some (StrictFilterSet [n]), Version = Some (StrictFilterSet [v]) \<rparr>],
        attributes = None, resources = None \<rparr>, None)"
  by (simp add: NewMatcher_def one_library_properties_def CreateFilterSet_def)

lemma NewMatcher_one_library_no_version:
  "NewMatcher eng (one_library_properties n None) =
     (\<lparr> libraries = [\<lparr> Name = Some (StrictFilterSet [n]), Version = None \<rparr>],
        attributes = None, resources = None \<rparr>, None)"
  by (simp add: NewMatcher_def one_library_properties_def CreateFilterSet_def)

text \<open>
  C9. In every matcher \<^verbatim>\<open>NewMatcher\<close> builds, a constraint has a version filter exactly
  when its configuration has a version, and the filter is the one compiled from the
  configured string, the empty string included. Under STRICT the constraint with the version
  \<^verbatim>\<open>""\<close> accepts a scope iff its name is the configured one and its version is empty,
  while the constraint without a version accepts the name with any version.
\<close>

theorem Match_empty_version_is_a_version:
  "(NewMatcher eng mp = (m, None) \<longrightarrow>
      list_all2 (version_compiled eng (Config mp)) (Libraries mp) (libraries m))
   \<and> NewMatcher eng (one_library_properties n (Some [])) =
       (\<lparr> libraries = [\<lparr> Name = Some (StrictFilterSet [n]), Version = Some (StrictFilterSet [[]]) \<rparr>],
          attributes = None, resources = None \<rparr>, None)
   \<and> Match eng (fst (NewMatcher eng (one_library_properties n (Some [])))) attrs resource library
       = Inr (Scope_Name library = n \<and> Scope_Version library = [])
   \<and> Match eng (fst (NewMatcher eng (one_library_properties n None))) attrs resource library
       = Inr (Scope_Name library = n)"
proof -
  have "Match eng (fst (NewMatcher eng (one_library_properties n (Some [])))) attrs resource library
       = Inr (Scope_Name library = n \<and> Scope_Version library = [])"
    by (auto simp: NewMatcher_one_library_version Match_def)
  moreover have "Match eng (fst (NewMatcher eng (one_library_properties n None))) attrs resource library
       = Inr (Scope_Name library = n)"
    by (auto simp: NewMatcher_one_library_no_version Match_def)
  ultimately show ?thesis
    using NewMatcher_version_compiled [of eng mp m] NewMatcher_one_library_version [of eng n "[]"]
    by blast
qed

theorem Match_empty_version_is_a_version_witness:
  "list_all2 (version_compiled literal_engine (Config (one_library_properties ''lib-a'' (Some []))))
     (Libraries (one_library_properties ''lib-a'' (Some [])))
     [\<lparr> Name = Some (StrictFilterSet [''lib-a'']), Version = Some (StrictFilterSet [[]]) \<rparr>]
   \<and> Match literal_engine (fst (NewMatcher literal_engine (one_library_properties ''lib-a'' (Some []))))
       Map.empty \<lparr> Resource_Attributes = Map.empty \<rparr>
       \<lparr> Scope_Name = ''lib-a'', Scope_Version = ''1.0'' \<rparr> = Inr False
   \<and> Match literal_engine (fst (NewMatcher literal_engine (one_library_properties ''lib-a'' None)))
       Map.empty \<lparr> Resource_Attributes = Map.empty \<rparr>
       \<lparr> Scope_Name = ''lib-a'', Scope_Version = ''1.0'' \<rparr> = Inr True"
proof -
  let ?mp = "one_library_properties ''lib-a'' (Some [])"
  let ?m = "\<lparr> libraries = [\<lparr> Name = Some (StrictFilterSet [''lib-a'']),
                              Version = Some (StrictFilterSet [[]]) \<rparr>],
              attributes = None, resources = None \<rparr> :: re_item list PropertiesMatcher"
  let ?library = "\<lparr> Scope_Name = ''lib-a'', Scope_Version = ''1.0'' \<rparr>"
  have n: "NewMatcher literal_engine ?mp = (?m, None)"
    by (rule NewMatcher_one_library_version)
  from n Match_empty_version_is_a_version
    [where eng = literal_engine and mp = ?mp and m = ?m and n = "''lib-a''"
       and attrs = Map.empty and resource = "\<lparr> Resource_Attributes = Map.empty \<rparr>"
       and library = ?library]
  have "list_all2 (version_compiled literal_engine (Config ?mp)) (Libraries ?mp) (libraries ?m)"
    and "Match literal_engine (fst (NewMatcher literal_engine ?mp))
       Map.empty \<lparr> Resource_Attributes = Map.empty \<rparr> ?library
       = Inr (Scope_Name ?library = ''lib-a'' \<and> Scope_Version ?library = [])"
    and "Match literal_engine (fst (NewMatcher literal_engine (one_library_properties ''lib-a'' None)))
       Map.empty \<lparr> Resource_Attributes = Map.empty \<rparr> ?library
       = Inr (Scope_Name ?library = ''lib-a'')"
    by blast+
  then show ?thesis by simp
qed

section \<open>Properties of IsMatch\<close>

text \<open>
  C10. \<^verbatim>\<open>IsMatch\<close> returns an error, and no function, iff the pattern does not compile;
  the error wraps the cause. Otherwise it returns a function that gives back the error of
  the getter when the getter fails, false without an error when the value is \<^verbatim>\<open>nil\<close> or is
  not a string, and otherwise whether the compiled pattern finds a match in the string.
\<close>

theorem IsMatch_behaviour:
  "(snd (IsMatch eng target pattern) \<noteq> None \<longleftrightarrow> isl (Compile eng pattern))
   \<and> (snd (IsMatch eng target pattern) \<noteq> None \<longrightarrow> fst (IsMatch eng target pattern) = None)
   \<and> (Compile eng pattern = Inl cause \<longrightarrow>
        IsMatch eng target pattern
        = (None, Some (fmt_Errorf ''the pattern supplied to IsMatch is not a valid regexp pattern'' cause)))
   \<and> (Compile eng pattern = Inr compiledPattern \<longrightarrow>
        (\<exists>f. IsMatch eng target pattern = (Some f, None)
           \<and> (\<forall>ctx val err. target ctx = (val, Some err) \<longrightarrow> f ctx = (AnyNil, Some err))
           \<and> (\<forall>ctx. target ctx = (AnyNil, None) \<longrightarrow> f ctx = (AnyBool False, None))
           \<and> (\<forall>ctx val. target ctx = (val, None) \<and> (\<forall>s. val \<noteq> AnyString s)
                  \<longrightarrow> f ctx = (AnyBool False, None))
           \<and> (\<forall>ctx s. target ctx = (AnyString s, None)
                  \<longrightarrow> f ctx = (AnyBool (MatchString eng compiledPattern s), None))))"
proof (cases "Compile eng pattern")
  case (Inl e)
  then show ?thesis by (simp add: IsMatch_def)
next
  case (Inr r)
  then show ?thesis by (auto simp: IsMatch_def split: any.splits)
qed

lemma Compile_abc:
  "Compile literal_engine ''^abc'' = Inr [Bol, Lit CHR ''a'', Lit CHR ''b'', Lit CHR ''c'']"
  by (simp add: Compile_literal_engine is_meta_def)

lemma Compile_bad_pattern:
  "Compile literal_engine ''(['' = Inl (errorString ''error parsing regexp: (['')"
  by (simp add: Compile_literal_engine is_meta_def)

theorem IsMatch_behaviour_witness:
  "(\<exists>f. IsMatch literal_engine (\<lambda>ctx. (ctx, None)) ''^abc'' = (Some f, None)
       \<and> f (AnyString ''abcdef'') = (AnyBool True, None)
       \<and> f (AnyString ''xabc'') = (AnyBool False, None)
       \<and> f AnyNil = (AnyBool False, None))
   \<and> IsMatch literal_engine (\<lambda>ctx :: any. (ctx, None)) ''(['' =
       (None, Some (fmt_Errorf ''the pattern supplied to IsMatch is not a valid regexp pattern''
                      (errorString ''error parsing regexp: (['')))"
proof -
  let ?r = "[Bol, Lit CHR ''a'', Lit CHR ''b'', Lit CHR ''c'']"
  let ?target = "\<lambda>ctx :: any. (ctx, None :: error option)"
  note IsMatch_behaviour
    [where eng = literal_engine and target = ?target and pattern = "''^abc''"
       and compiledPattern = ?r, THEN conjunct2, THEN conjunct2, THEN conjunct2, THEN mp,
     OF Compile_abc]
  then obtain f where all:
    "IsMatch literal_engine ?target ''^abc'' = (Some f, None)
       \<and> (\<forall>ctx val err. ?target ctx = (val, Some err) \<longrightarrow> f ctx = (AnyNil, Some err))
       \<and> (\<forall>ctx. ?target ctx = (AnyNil, None) \<longrightarrow> f ctx = (AnyBool False, None))
       \<and> (\<forall>ctx val. ?target ctx = (val, None) \<and> (\<forall>s. val \<noteq> AnyString s)
              \<longrightarrow> f ctx = (AnyBool False, None))
       \<and> (\<forall>ctx s. ?target ctx = (AnyString s, None)
              \<longrightarrow> f ctx = (AnyBool (MatchString literal_engine ?r s), None))" ..
  note f = all [THEN conjunct1]
    and n = all [THEN conjunct2, THEN conjunct2, THEN conjunct1]
    and s = all [THEN conjunct2, THEN conjunct2, THEN conjunct2, THEN conjunct2]
  from n have "f AnyNil = (AnyBool False, None)" by simp
  moreover from s have "f (AnyString ''abcdef'') = (AnyBool True, None)"
    by (simp add: MatchString_literal_engine)
  moreover from s have "f (AnyString ''xabc'') = (AnyBool False, None)"
    by (simp add: MatchString_literal_engine)
  ultimately have 1: "\<exists>f. IsMatch literal_engine ?target ''^abc'' = (Some f, None)
       \<and> f (AnyString ''abcdef'') = (AnyBool True, None)
       \<and> f (AnyString ''xabc'') = (AnyBool False, None)
       \<and> f AnyNil = (AnyBool False, None)"
    using f by (intro exI [of _ f] conjI)
  note 2 = IsMatch_behaviour
    [where eng = literal_engine and target = ?target and pattern = "''([''",
     THEN conjunct2, THEN conjunct2, THEN conjunct1, THEN mp, OF Compile_bad_pattern]
  from 1 2 show ?thesis by (rule conjI)
qed

end
